theory Spec2Isabelle
  imports Main "HOL-Library.Sublist"
begin

section \<open>Python values and built-ins used by server.py\<close>

text \<open>
  A Python \<open>str\<close> is modelled as a \<open>string\<close> in which every \<open>char\<close> stands for one
  code point (the model covers the code points below 256), so that \<open>length\<close> is
  Python's \<open>len\<close>.

  \<open>json\<close> is the type of the objects \<open>resp.json()\<close> returns: \<open>None\<close>, \<open>bool\<close>, \<open>int\<close>,
  \<open>float\<close>, \<open>str\<close>, \<open>list\<close> and \<open>dict\<close> (an association list in insertion order, its keys
  distinct). A float is carried as the text Python's \<open>repr\<close> prints for it; no arithmetic
  is done on one.
\<close>

datatype json =
    JNull
  | JBool bool
  | JInt int
  | JFloat string
  | JString string
  | JArray "json list"
  | JObject "(string \<times> json) list"

text \<open>The exceptions the tool functions can raise.\<close>

datatype py_error =
    JSONDecodeError
  | KeyError string
  | TypeError
  | AttributeError
  | IndexError
  | ValueError
  | InvalidJSONError

text \<open>Sequencing of computations that may raise: the first exception wins.\<close>

definition bind :: "py_error + 'a \<Rightarrow> ('a \<Rightarrow> py_error + 'b) \<Rightarrow> py_error + 'b" where
  "bind m f = (case m of Inl e \<Rightarrow> Inl e | Inr x \<Rightarrow> f x)"

subsection \<open>Characters\<close>

definition nl :: string where
  "nl = [CHR 0x0A]"

definition sq :: char where
  "sq = CHR 0x27"

definition dq :: char where
  "dq = CHR 0x22"

definition backslash :: char where
  "backslash = CHR 0x5C"

text \<open>\<open>str.isspace\<close> on the code points below 256.\<close>

definition isspace :: "char \<Rightarrow> bool" where
  "isspace c = (let n = (of_char c :: nat) in
     (9 \<le> n \<and> n \<le> 13) \<or> (28 \<le> n \<and> n \<le> 32) \<or> n = 133 \<or> n = 160)"

text \<open>\<open>str.isprintable\<close> on the code points from 128 to 255.\<close>

definition isprintable_high :: "char \<Rightarrow> bool" where
  "isprintable_high c = (let n = (of_char c :: nat) in 161 \<le> n \<and> n \<noteq> 173)"

subsection \<open>\<open>str.strip()\<close> and \<open>str.split(sep)\<close>\<close>

definition strip :: "string \<Rightarrow> string" where
  "strip s = rev (dropWhile isspace (rev (dropWhile isspace s)))"

text \<open>
  \<open>split_from sep cur rest\<close> scans \<open>rest\<close> from the left; \<open>cur\<close> is the piece collected
  since the last separator. Occurrences of the separator are taken leftmost first and do
  not overlap.
\<close>

function split_from :: "string \<Rightarrow> string \<Rightarrow> string \<Rightarrow> string list" where
  "split_from sep cur [] = [cur]"
| "split_from sep cur (c # cs) =
     (if sep \<noteq> [] \<and> prefix sep (c # cs)
      then cur # split_from sep [] (drop (length sep) (c # cs))
      else split_from sep (cur @ [c]) cs)"
  by pat_completeness auto
termination
  by (relation "measure (\<lambda>(sep, cur, rest). length rest)") auto

definition split :: "string \<Rightarrow> string \<Rightarrow> py_error + string list" where
  "split s sep = (if sep = [] then Inl ValueError else Inr (split_from sep [] s))"

subsection \<open>\<open>str()\<close> and \<open>repr()\<close>\<close>

definition digit_char :: "nat \<Rightarrow> char" where
  "digit_char d = ''0123456789'' ! d"

fun str_nat :: "nat \<Rightarrow> string" where
  "str_nat n = (if n < 10 then [digit_char n] else str_nat (n div 10) @ [digit_char (n mod 10)])"

declare str_nat.simps [simp del]

definition str_int :: "int \<Rightarrow> string" where
  "str_int i = (if i < 0 then CHR ''-'' # str_nat (nat (- i)) else str_nat (nat i))"

definition hex_char :: "nat \<Rightarrow> char" where
  "hex_char d = ''0123456789abcdef'' ! d"

definition hex2 :: "char \<Rightarrow> string" where
  "hex2 c = (let n = (of_char c :: nat) in [hex_char (n div 16), hex_char (n mod 16)])"

text \<open>One character of \<open>repr(s)\<close> for a \<open>str\<close>, inside the quote \<open>q\<close>.\<close>

definition repr_char :: "char \<Rightarrow> char \<Rightarrow> string" where
  "repr_char q c = (let n = (of_char c :: nat) in
     if c = q \<or> c = backslash then [backslash, c]
     else if n = 9 then [backslash, CHR ''t'']
     else if n = 10 then [backslash, CHR ''n'']
     else if n = 13 then [backslash, CHR ''r'']
     else if n < 32 \<or> n = 127 then [backslash, CHR ''x''] @ hex2 c
     else if n < 127 then [c]
     else if isprintable_high c then [c]
     else [backslash, CHR ''x''] @ hex2 c)"

definition repr_str :: "string \<Rightarrow> string" where
  "repr_str s = (let q = (if sq \<in> set s \<and> dq \<notin> set s then dq else sq)
     in [q] @ concat (map (repr_char q) s) @ [q])"

fun join :: "string \<Rightarrow> string list \<Rightarrow> string" where
  "join sep [] = []"
| "join sep [x] = x"
| "join sep (x # y # ys) = x @ sep @ join sep (y # ys)"

fun repr :: "json \<Rightarrow> string" where
  "repr JNull = ''None''"
| "repr (JBool b) = (if b then ''True'' else ''False'')"
| "repr (JInt i) = str_int i"
| "repr (JFloat f) = f"
| "repr (JString s) = repr_str s"
| "repr (JArray xs) = ''['' @ join '', '' (map repr xs) @ '']''"
| "repr (JObject kvs) =
     ''{'' @ join '', '' (map (\<lambda>(k, v). repr_str k @ '': '' @ repr v) kvs) @ ''}''"

text \<open>\<open>str(x)\<close>, which is what an f-string field \<open>{x}\<close> prints.\<close>

fun str :: "json \<Rightarrow> string" where
  "str (JString s) = s"
| "str v = repr v"

text \<open>Truth value of an object, as \<open>if x:\<close> tests it.\<close>

fun truthy :: "json \<Rightarrow> bool" where
  "truthy JNull = False"
| "truthy (JBool b) = b"
| "truthy (JInt i) = (i \<noteq> 0)"
| "truthy (JFloat f) = (f \<noteq> ''0.0'' \<and> f \<noteq> ''-0.0'')"
| "truthy (JString s) = (s \<noteq> [])"
| "truthy (JArray xs) = (xs \<noteq> [])"
| "truthy (JObject kvs) = (kvs \<noteq> [])"

text \<open>
  Whether \<open>requests\<close> can encode an object as a JSON body: it calls \<open>json.dumps\<close> with
  \<open>allow_nan=False\<close>, which refuses the floats \<open>inf\<close>, \<open>-inf\<close> and \<open>nan\<close>, wherever they stand.
\<close>

fun serialisable :: "json \<Rightarrow> bool" where
  "serialisable (JFloat f) = (f \<noteq> ''inf'' \<and> f \<noteq> ''-inf'' \<and> f \<noteq> ''nan'')"
| "serialisable (JArray xs) = list_all serialisable xs"
| "serialisable (JObject kvs) = list_all (\<lambda>(k, v). serialisable v) kvs"
| "serialisable v = True"

text \<open>\<open>obj[key]\<close> with a \<open>str\<close> key: only a \<open>dict\<close> can be indexed by one.\<close>

fun subscript :: "json \<Rightarrow> string \<Rightarrow> py_error + json" where
  "subscript (JObject kvs) k =
     (case map_of kvs k of None \<Rightarrow> Inl (KeyError k) | Some v \<Rightarrow> Inr v)"
| "subscript v k = Inl TypeError"

text \<open>\<open>obj.get(key, default)\<close>: only a \<open>dict\<close> has the method.\<close>

fun get :: "json \<Rightarrow> string \<Rightarrow> json \<Rightarrow> py_error + json" where
  "get (JObject kvs) k d = (case map_of kvs k of None \<Rightarrow> Inr d | Some v \<Rightarrow> Inr v)"
| "get v k d = Inl AttributeError"

section \<open>The process and the upstream service\<close>

text \<open>
  The OAuth1 signer holds the four strings it was built from. A request records what
  \<open>requests.post\<close>, \<open>requests.get\<close> or \<open>requests.delete\<close> was called with. A response
  offers its \<open>status_code\<close>, its raw body \<open>resp_text\<close> and \<open>resp_json\<close>, the outcome of
  \<open>resp.json()\<close>: \<open>None\<close> where the body is not JSON and the call raises.
\<close>

record oauth1 =
  client_key :: string
  client_secret :: string
  resource_owner_key :: string
  resource_owner_secret :: string

datatype http_method = POST | GET | DELETE

record request =
  req_method :: http_method
  req_url :: string
  req_auth :: oauth1
  req_json :: "json option"
  req_params :: "(string \<times> string) list"

record response =
  status_code :: int
  resp_text :: string
  resp_json :: "json option"

text \<open>
  The state of the process: the module's globals and the requests sent so far. The
  upstream service is a sequence of responses: the request sent when \<open>n\<close> requests have
  gone out before it is answered by \<open>net n\<close>. (A transport failure, where \<open>requests\<close>
  raises for want of an answer, is outside the model.)
\<close>

record state =
  TWITTER_API_KEY :: string
  TWITTER_API_KEY_SECRET :: string
  TWITTER_ACCESS_TOKEN :: string
  TWITTER_ACCESS_TOKEN_SECRET :: string
  twitter_auth :: oauth1
  sent :: "request list"

type_synonym upstream = "nat \<Rightarrow> response"

subsection \<open>Module initialisation (lines 22 to 33)\<close>

text \<open>
  \<open>getenv\<close> is \<open>os.getenv(name, default)\<close> on the environment as \<open>load_dotenv()\<close> left
  it; the list threaded through records each variable name read.
\<close>

definition getenv ::
  "(string \<rightharpoonup> string) \<Rightarrow> string \<Rightarrow> string \<Rightarrow> string list \<Rightarrow> string \<times> string list" where
  "getenv env name dflt reads =
     ((case env name of None \<Rightarrow> dflt | Some v \<Rightarrow> v), reads @ [name])"

definition OAuth1 :: "string \<Rightarrow> string \<Rightarrow> string \<Rightarrow> string \<Rightarrow> oauth1" where
  "OAuth1 ck cs rk rs =
     \<lparr>client_key = ck, client_secret = cs, resource_owner_key = rk, resource_owner_secret = rs\<rparr>"

definition module_init :: "(string \<rightharpoonup> string) \<Rightarrow> state \<times> string list" where
  "module_init env =
     (let (k, r1) = getenv env ''TWITTER_API_KEY'' [] [];
          (ks, r2) = getenv env ''TWITTER_API_KEY_SECRET'' [] r1;
          (t, r3) = getenv env ''TWITTER_ACCESS_TOKEN'' [] r2;
          (ts, r4) = getenv env ''TWITTER_ACCESS_TOKEN_SECRET'' [] r3
      in (\<lparr>TWITTER_API_KEY = k, TWITTER_API_KEY_SECRET = ks,
           TWITTER_ACCESS_TOKEN = t, TWITTER_ACCESS_TOKEN_SECRET = ts,
           twitter_auth = OAuth1 k ks t ts, sent = []\<rparr>, r4))"

definition THREAD_SEPARATOR :: string where
  "THREAD_SEPARATOR = nl @ nl @ ''---'' @ nl @ nl"

subsection \<open>Internal functions\<close>

text \<open>
  \<open>post_tweet\<close>, \<open>get_tweet\<close>, \<open>delete_tweet\<close> and \<open>get_me\<close> are the source's \<open>_post_tweet\<close>,
  \<open>_get_tweet\<close>, \<open>_delete_tweet\<close> and \<open>_get_me\<close>. Each sends its request first; \<open>resp.json()\<close>
  is called on the response afterwards, so the request has gone out when that raises.
\<close>

text \<open>
  A call of \<open>requests.post\<close>, \<open>requests.get\<close> or \<open>requests.delete\<close>. A \<open>json=\<close> payload is
  encoded while the request is prepared: when it cannot be encoded the call raises
  \<open>InvalidJSONError\<close> and nothing is sent.
\<close>

definition send :: "upstream \<Rightarrow> request \<Rightarrow> state \<Rightarrow> (py_error + response) \<times> state" where
  "send net req s =
     (if (case req_json req of None \<Rightarrow> True | Some payload \<Rightarrow> serialisable payload)
      then (Inr (net (length (sent s))), s\<lparr>sent := sent s @ [req]\<rparr>)
      else (Inl InvalidJSONError, s))"

definition json_of :: "response \<Rightarrow> py_error + json" where
  "json_of resp = (case resp_json resp of None \<Rightarrow> Inl JSONDecodeError | Some j \<Rightarrow> Inr j)"

record result =
  status :: int
  data :: json

text \<open>The payload of lines 44 to 46; \<open>JNull\<close> is the default \<open>reply_to_id=None\<close>.\<close>

definition tweet_payload :: "string \<Rightarrow> json \<Rightarrow> json" where
  "tweet_payload txt reply_to_id =
     (if truthy reply_to_id
      then JObject [(''text'', JString txt),
                    (''reply'', JObject [(''in_reply_to_tweet_id'', reply_to_id)])]
      else JObject [(''text'', JString txt)])"

definition post_tweet :: "upstream \<Rightarrow> string \<Rightarrow> json \<Rightarrow> state \<Rightarrow> (py_error + result) \<times> state" where
  "post_tweet net txt reply_to_id s =
     (case send net
            \<lparr>req_method = POST, req_url = ''https://api.twitter.com/2/tweets'',
             req_auth = twitter_auth s, req_json = Some (tweet_payload txt reply_to_id),
             req_params = []\<rparr> s of
        (Inl e, s') \<Rightarrow> (Inl e, s')
      | (Inr resp, s') \<Rightarrow>
          (bind (json_of resp) (\<lambda>j. Inr \<lparr>status = status_code resp, data = j\<rparr>), s'))"

definition get_tweet :: "upstream \<Rightarrow> string \<Rightarrow> state \<Rightarrow> (py_error + result) \<times> state" where
  "get_tweet net tweet_id s =
     (case send net
            \<lparr>req_method = GET, req_url = ''https://api.twitter.com/2/tweets/'' @ tweet_id,
             req_auth = twitter_auth s, req_json = None,
             req_params = [(''tweet.fields'', ''public_metrics,created_at,author_id'')]\<rparr> s of
        (Inl e, s') \<Rightarrow> (Inl e, s')
      | (Inr resp, s') \<Rightarrow>
          (bind (json_of resp) (\<lambda>j. Inr \<lparr>status = status_code resp, data = j\<rparr>), s'))"

definition delete_tweet :: "upstream \<Rightarrow> string \<Rightarrow> state \<Rightarrow> (py_error + result) \<times> state" where
  "delete_tweet net tweet_id s =
     (case send net
            \<lparr>req_method = DELETE, req_url = ''https://api.twitter.com/2/tweets/'' @ tweet_id,
             req_auth = twitter_auth s, req_json = None, req_params = []\<rparr> s of
        (Inl e, s') \<Rightarrow> (Inl e, s')
      | (Inr resp, s') \<Rightarrow>
          (bind (if resp_text resp \<noteq> [] then json_of resp else Inr (JObject []))
             (\<lambda>j. Inr \<lparr>status = status_code resp, data = j\<rparr>), s'))"

definition get_me :: "upstream \<Rightarrow> state \<Rightarrow> (py_error + result) \<times> state" where
  "get_me net s =
     (case send net
            \<lparr>req_method = GET, req_url = ''https://api.twitter.com/2/users/me'',
             req_auth = twitter_auth s, req_json = None,
             req_params = [(''user.fields'', ''id,name,username,public_metrics'')]\<rparr> s of
        (Inl e, s') \<Rightarrow> (Inl e, s')
      | (Inr resp, s') \<Rightarrow>
          (bind (json_of resp) (\<lambda>j. Inr \<lparr>status = status_code resp, data = j\<rparr>), s'))"

subsection \<open>The five tools\<close>

text \<open>Lines 89 to 97: the fields are evaluated in the order the source reads them.\<close>

definition x_get_me_format :: "json \<Rightarrow> py_error + string" where
  "x_get_me_format body =
     bind (subscript body ''data'') (\<lambda>d.
     bind (get d ''public_metrics'' (JObject [])) (\<lambda>metrics.
     bind (subscript d ''username'') (\<lambda>username.
     bind (subscript d ''name'') (\<lambda>name.
     bind (subscript d ''id'') (\<lambda>ident.
     bind (get metrics ''followers_count'' (JString ''N/A'')) (\<lambda>followers.
     bind (get metrics ''following_count'' (JString ''N/A'')) (\<lambda>following.
     bind (get metrics ''tweet_count'' (JString ''N/A'')) (\<lambda>tweets.
       Inr (''Authenticated as: @'' @ str username @ nl @
            ''Name: '' @ str name @ nl @
            ''ID: '' @ str ident @ nl @
            ''Followers: '' @ str followers @ nl @
            ''Following: '' @ str following @ nl @
            ''Tweets: '' @ str tweets)))))))))"

definition x_get_me :: "upstream \<Rightarrow> state \<Rightarrow> (py_error + string) \<times> state" where
  "x_get_me net s =
     (case get_me net s of
        (Inl e, s') \<Rightarrow> (Inl e, s')
      | (Inr res, s') \<Rightarrow>
          if status res \<noteq> 200 then (Inr (''Error: '' @ str (data res)), s')
          else (x_get_me_format (data res), s'))"

definition x_post_tweet :: "upstream \<Rightarrow> string \<Rightarrow> state \<Rightarrow> (py_error + string) \<times> state" where
  "x_post_tweet net txt s =
     (if length txt > 280
      then (Inr (''Error: Tweet too long ('' @ str_nat (length txt) @ '' chars). Max 280.''), s)
      else (case post_tweet net txt JNull s of
          (Inl e, s') \<Rightarrow> (Inl e, s')
        | (Inr res, s') \<Rightarrow>
            if status res \<noteq> 201 then (Inr (''Error posting tweet: '' @ str (data res)), s')
            else (bind (subscript (data res) ''data'') (\<lambda>d.
                  bind (subscript d ''id'') (\<lambda>tweet_id.
                    Inr (''Tweet posted!'' @ nl @ ''ID: '' @ str tweet_id @ nl @
                         ''URL: https://twitter.com/i/status/'' @ str tweet_id))), s')))"

text \<open>Line 137: the pieces between separators, trimmed, the empty ones dropped.\<close>

definition thread_tweets :: "string \<Rightarrow> py_error + string list" where
  "thread_tweets txt =
     bind (split txt THREAD_SEPARATOR) (\<lambda>pieces.
       Inr (map strip (filter (\<lambda>t. strip t \<noteq> []) pieces)))"

text \<open>Lines 143 to 145: the message for the first tweet that is too long, if any.\<close>

fun validate_lengths :: "nat \<Rightarrow> string list \<Rightarrow> string option" where
  "validate_lengths i [] = None"
| "validate_lengths i (tweet # rest) =
     (if length tweet > 280
      then Some (''Error: Tweet '' @ str_nat (i + 1) @ '' too long ('' @
                 str_nat (length tweet) @ '' chars). Max 280.'')
      else validate_lengths (i + 1) rest)"

text \<open>Lines 160 to 164, reached when the loop has posted every tweet.\<close>

definition thread_posted :: "json list \<Rightarrow> py_error + string" where
  "thread_posted posted_ids =
     (let urls = map (\<lambda>tid. ''https://twitter.com/i/status/'' @ str tid) posted_ids
      in case urls of
           [] \<Rightarrow> Inl IndexError
         | u # _ \<Rightarrow>
             Inr (''Thread posted! ('' @ str_nat (length posted_ids) @ '' tweets)'' @ nl @
                  ''IDs: '' @ str (JArray posted_ids) @ nl @
                  ''First tweet: '' @ u))"

text \<open>Lines 150 to 158: the posting loop, at index \<open>i\<close> with the tweets still to post.\<close>

fun post_loop ::
  "upstream \<Rightarrow> nat \<Rightarrow> string list \<Rightarrow> json list \<Rightarrow> json \<Rightarrow> state \<Rightarrow> (py_error + string) \<times> state" where
  "post_loop net i [] posted_ids reply_to s = (thread_posted posted_ids, s)"
| "post_loop net i (tweet # rest) posted_ids reply_to s =
     (case post_tweet net tweet reply_to s of
        (Inl e, s') \<Rightarrow> (Inl e, s')
      | (Inr res, s') \<Rightarrow>
          if status res \<noteq> 201
          then (Inr (''Error posting tweet '' @ str_nat (i + 1) @ '': '' @ str (data res) @ nl @
                     ''Posted so far: '' @ str (JArray posted_ids)), s')
          else (case bind (subscript (data res) ''data'') (\<lambda>d. subscript d ''id'') of
                  Inl e \<Rightarrow> (Inl e, s')
                | Inr tweet_id \<Rightarrow> post_loop net (i + 1) rest (posted_ids @ [tweet_id]) tweet_id s'))"

definition x_post_thread :: "upstream \<Rightarrow> string \<Rightarrow> state \<Rightarrow> (py_error + string) \<times> state" where
  "x_post_thread net txt s =
     (case thread_tweets txt of
        Inl e \<Rightarrow> (Inl e, s)
      | Inr tweets \<Rightarrow>
          if length tweets < 2
          then (Inr (''Error: Thread must have at least 2 tweets. Use '' @ [sq] @
                     [backslash, CHR ''n'', backslash, CHR ''n''] @ ''---'' @
                     [backslash, CHR ''n'', backslash, CHR ''n''] @ [sq] @ '' as separator.''), s)
          else (case validate_lengths 0 tweets of
                  Some msg \<Rightarrow> (Inr msg, s)
                | None \<Rightarrow> post_loop net 0 tweets [] JNull s))"

text \<open>Lines 183 to 196.\<close>

definition x_get_tweet_format :: "json \<Rightarrow> py_error + string" where
  "x_get_tweet_format body =
     bind (subscript body ''data'') (\<lambda>d.
     bind (get d ''public_metrics'' (JObject [])) (\<lambda>metrics.
     bind (subscript d ''id'') (\<lambda>ident.
     bind (get d ''text'' (JString ''N/A'')) (\<lambda>txt.
     bind (get d ''created_at'' (JString ''N/A'')) (\<lambda>created.
     bind (get metrics ''like_count'' (JInt 0)) (\<lambda>likes.
     bind (get metrics ''retweet_count'' (JInt 0)) (\<lambda>retweets.
     bind (get metrics ''reply_count'' (JInt 0)) (\<lambda>replies.
     bind (get metrics ''impression_count'' (JInt 0)) (\<lambda>impressions.
     bind (get metrics ''quote_count'' (JInt 0)) (\<lambda>quotes.
     bind (get metrics ''bookmark_count'' (JInt 0)) (\<lambda>bookmarks.
       Inr (''Tweet ID: '' @ str ident @ nl @
            ''Text: '' @ str txt @ nl @
            ''Created: '' @ str created @ nl @ nl @
            ''Metrics:'' @ nl @
            ''- Likes: '' @ str likes @ nl @
            ''- Retweets: '' @ str retweets @ nl @
            ''- Replies: '' @ str replies @ nl @
            ''- Impressions: '' @ str impressions @ nl @
            ''- Quotes: '' @ str quotes @ nl @
            ''- Bookmarks: '' @ str bookmarks))))))))))))"

definition x_get_tweet :: "upstream \<Rightarrow> string \<Rightarrow> state \<Rightarrow> (py_error + string) \<times> state" where
  "x_get_tweet net tweet_id s =
     (case get_tweet net tweet_id s of
        (Inl e, s') \<Rightarrow> (Inl e, s')
      | (Inr res, s') \<Rightarrow>
          if status res \<noteq> 200 then (Inr (''Error: '' @ str (data res)), s')
          else (x_get_tweet_format (data res), s'))"

definition x_delete_tweet :: "upstream \<Rightarrow> string \<Rightarrow> state \<Rightarrow> (py_error + string) \<times> state" where
  "x_delete_tweet net tweet_id s =
     (case delete_tweet net tweet_id s of
        (Inl e, s') \<Rightarrow> (Inl e, s')
      | (Inr res, s') \<Rightarrow>
          if status res \<noteq> 200 then (Inr (''Error deleting tweet: '' @ str (data res)), s')
          else (Inr (''Tweet '' @ tweet_id @ '' deleted successfully.''), s'))"

section \<open>Observations used in the statements\<close>

text \<open>The request \<open>post_tweet\<close> sends for a text and a reply target.\<close>

definition post_request :: "oauth1 \<Rightarrow> string \<Rightarrow> json \<Rightarrow> request" where
  "post_request a txt reply_to_id =
     \<lparr>req_method = POST, req_url = ''https://api.twitter.com/2/tweets'',
      req_auth = a, req_json = Some (tweet_payload txt reply_to_id), req_params = []\<rparr>"




text \<open>The module's globals, apart from the trace of requests.\<close>

definition globals :: "state \<Rightarrow> string \<times> string \<times> string \<times> string \<times> oauth1" where
  "globals s = (TWITTER_API_KEY s, TWITTER_API_KEY_SECRET s, TWITTER_ACCESS_TOKEN s,
     TWITTER_ACCESS_TOKEN_SECRET s, twitter_auth s)"


text \<open>The message of line 145 for the tweet at index \<open>i\<close>.\<close>

definition too_long_message :: "nat \<Rightarrow> string \<Rightarrow> string" where
  "too_long_message i tweet =
     ''Error: Tweet '' @ str_nat (i + 1) @ '' too long ('' @ str_nat (length tweet) @
     '' chars). Max 280.''"

subsection \<open>Sample states and responses\<close>

definition start :: state where
  "start = fst (module_init Map.empty)"

definition quoted :: "string \<Rightarrow> string" where
  "quoted s = [dq] @ s @ [dq]"

text \<open>A 201 response with body \<open>{"data":{"id":"..."}}\<close>.\<close>

definition created :: "string \<Rightarrow> response" where
  "created ident =
     \<lparr>status_code = 201,
      resp_text = ''{'' @ quoted ''data'' @ '':{'' @ quoted ''id'' @ '':'' @ quoted ident @ ''}}'',
      resp_json = Some (JObject [(''data'', JObject [(''id'', JString ident)])])\<rparr>"



text \<open>The requests an operation issued, given the state it started in and its outcome.\<close>

definition issued :: "state \<Rightarrow> (py_error + string) \<times> state \<Rightarrow> request list" where
  "issued s out = drop (length (sent s)) (sent (snd out))"





text \<open>An upstream that answers every request alike.\<close>

definition always :: "response \<Rightarrow> upstream" where
  "always r = (\<lambda>n. r)"

text \<open>An outcome that is a string, not an exception.\<close>

definition returns_string :: "(py_error + string) \<times> state \<Rightarrow> bool" where
  "returns_string out = (case fst out of Inl e \<Rightarrow> False | Inr msg \<Rightarrow> True)"

text \<open>What a formatted field shows: the value under the key, or the default.\<close>

definition field_or :: "(string \<times> json) list \<Rightarrow> string \<Rightarrow> string \<Rightarrow> string" where
  "field_or m k dflt = (case map_of m k of None \<Rightarrow> dflt | Some v \<Rightarrow> str v)"






text \<open>A 200 response with body \<open>{"data":{"id":"7","name":"Ada","username":"ada"}}\<close>.\<close>

definition me_minimal :: response where
  "me_minimal =
     \<lparr>status_code = 200,
      resp_text = ''{'' @ quoted ''data'' @ '':{'' @ quoted ''id'' @ '':'' @ quoted ''7'' @ '','' @
        quoted ''name'' @ '':'' @ quoted ''Ada'' @ '','' @
        quoted ''username'' @ '':'' @ quoted ''ada'' @ ''}}'',
      resp_json = Some (JObject [(''data'',
        JObject [(''id'', JString ''7''), (''name'', JString ''Ada''),
                 (''username'', JString ''ada'')])])\<rparr>"

text \<open>A 200 response with body \<open>{"data":{"id":"20"}}\<close>.\<close>

definition tweet_minimal :: response where
  "tweet_minimal =
     \<lparr>status_code = 200,
      resp_text = ''{'' @ quoted ''data'' @ '':{'' @ quoted ''id'' @ '':'' @ quoted ''20'' @ ''}}'',
      resp_json = Some (JObject [(''data'', JObject [(''id'', JString ''20'')])])\<rparr>"

text \<open>A 200 response with body \<open>{"data":{}}\<close>.\<close>

definition data_empty :: response where
  "data_empty =
     \<lparr>status_code = 200, resp_text = ''{'' @ quoted ''data'' @ '':{}}'',
      resp_json = Some (JObject [(''data'', JObject [])])\<rparr>"




section \<open>Basic facts\<close>

lemma thread_tweets_total:
  "thread_tweets txt =
     Inr (map strip (filter (\<lambda>t. strip t \<noteq> []) (split_from THREAD_SEPARATOR [] txt)))"
  by (simp add: thread_tweets_def split_def bind_def THREAD_SEPARATOR_def nl_def)

lemma validate_lengths_first:
  "i < length tweets \<Longrightarrow> 280 < length (tweets ! i) \<Longrightarrow>
   (\<forall>j<i. length (tweets ! j) \<le> 280) \<Longrightarrow>
   validate_lengths k tweets = Some (too_long_message (k + i) (tweets ! i))"
proof (induction tweets arbitrary: i k)
  case Nil
  then show ?case by simp
next
  case (Cons t ts)
  show ?case
  proof (cases i)
    case 0
    with Cons.prems show ?thesis by (simp add: too_long_message_def)
  next
    case (Suc m)
    from Cons.prems(3) Suc have short: "length t \<le> 280" by auto
    from Cons.prems Suc have "validate_lengths (k + 1) ts = Some (too_long_message (k + 1 + m) (ts ! m))"
      by (intro Cons.IH) auto
    with short Suc show ?thesis by simp
  qed
qed

lemma validate_lengths_pass:
  "(\<forall>t\<in>set tweets. length t \<le> 280) \<Longrightarrow> validate_lengths k tweets = None"
  by (induction tweets arbitrary: k) auto

lemma bind_Inl [simp]: "bind (Inl e) f = Inl e"
  by (simp add: bind_def)

lemma bind_Inr [simp]: "bind (Inr x) f = f x"
  by (simp add: bind_def)

lemma falsy_serialisable: "\<not> truthy r \<Longrightarrow> serialisable r"
  by (cases r) auto

lemma serialisable_tweet_payload: "serialisable (tweet_payload txt r) = serialisable r"
  using falsy_serialisable [of r] by (auto simp: tweet_payload_def)

lemma post_tweet_eq:
  "serialisable r \<Longrightarrow>
   post_tweet net txt r s =
     (bind (json_of (net (length (sent s))))
        (\<lambda>j. Inr \<lparr>status = status_code (net (length (sent s))), data = j\<rparr>),
      s\<lparr>sent := sent s @ [post_request (twitter_auth s) txt r]\<rparr>)"
  by (simp add: post_tweet_def send_def post_request_def serialisable_tweet_payload)

lemma post_tweet_refused:
  "\<not> serialisable r \<Longrightarrow> post_tweet net txt r s = (Inl InvalidJSONError, s)"
  by (simp add: post_tweet_def send_def serialisable_tweet_payload)






lemma post_loop_step_refused:
  "\<not> serialisable reply \<Longrightarrow>
   post_loop net i (t # ts) posted reply s = (Inl InvalidJSONError, s)"
  by (simp add: post_tweet_refused)









lemma x_post_thread_valid:
  "thread_tweets txt = Inr tweets \<Longrightarrow> 2 \<le> length tweets \<Longrightarrow>
   (\<forall>t\<in>set tweets. length t \<le> 280) \<Longrightarrow>
   x_post_thread net txt s = post_loop net 0 tweets [] JNull s"
  by (simp add: x_post_thread_def validate_lengths_pass)

lemma post_loop_sent_prefix:
  "prefix (sent s) (sent (snd (post_loop net i tweets posted reply s)))"
proof (induction tweets arbitrary: i posted reply s)
  case Nil
  show ?case by simp
next
  case (Cons t ts)
  show ?case
  proof (cases "serialisable reply")
    case False
    then show ?thesis by (simp add: post_tweet_refused)
  next
    case True
    note eq = post_tweet_eq [OF True]
    let ?s' = "s\<lparr>sent := sent s @ [post_request (twitter_auth s) t reply]\<rparr>"
    have step: "prefix (sent s) (sent ?s')" by simp
    have "prefix (sent ?s') (sent (snd (post_loop net i (t # ts) posted reply s)))"
    proof (cases "json_of (net (length (sent s)))")
      case (Inl e)
      then show ?thesis by (simp add: eq)
    next
      case (Inr j)
      show ?thesis
      proof (cases "bind (subscript j ''data'') (\<lambda>d. subscript d ''id'')")
        case (Inl e)
        with Inr show ?thesis by (simp add: eq)
      next
        case (Inr x)
        with \<open>json_of (net (length (sent s))) = Inr j\<close>
          Cons.IH [of ?s' "i + 1" "posted @ [x]" x]
        show ?thesis by (simp add: eq)
      qed
    qed
    with step show ?thesis by (rule prefix_order.trans)
  qed
qed

lemma post_loop_only_posts:
  "\<exists>reqs. sent (snd (post_loop net i tweets posted reply s)) = sent s @ reqs \<and>
     (\<forall>r\<in>set reqs. req_method r = POST)"
proof (induction tweets arbitrary: i posted reply s)
  case Nil
  show ?case by simp
next
  case (Cons t ts)
  show ?case
  proof (cases "serialisable reply")
    case False
    then show ?thesis by (simp add: post_tweet_refused)
  next
    case True
    note eq = post_tweet_eq [OF True]
    let ?req = "post_request (twitter_auth s) t reply"
    let ?s' = "s\<lparr>sent := sent s @ [?req]\<rparr>"
    have one: "req_method ?req = POST" by (simp add: post_request_def)
    show ?thesis
    proof (cases "json_of (net (length (sent s)))")
      case (Inl e)
      with one show ?thesis by (simp add: eq)
    next
      case (Inr j)
      show ?thesis
      proof (cases "bind (subscript j ''data'') (\<lambda>d. subscript d ''id'')")
        case (Inl e)
        with Inr one show ?thesis by (simp add: eq)
      next
        case (Inr x)
        from Cons.IH [of "i + 1" "posted @ [x]" x ?s'] obtain reqs where
          r: "sent (snd (post_loop net (i + 1) ts (posted @ [x]) x ?s')) = sent ?s' @ reqs"
          and p: "\<forall>r\<in>set reqs. req_method r = POST"
          by blast
        show ?thesis
        proof (cases "status_code (net (length (sent s))) = 201")
          case True
          with Inr \<open>json_of (net (length (sent s))) = Inr j\<close> r p one
          show ?thesis by (simp add: eq)
        next
          case False
          with \<open>json_of (net (length (sent s))) = Inr j\<close> one show ?thesis by (simp add: eq)
        qed
      qed
    qed
  qed
qed

lemma x_post_thread_only_posts:
  "\<forall>r\<in>set (issued s (x_post_thread net txt s)). req_method r = POST"
proof -
  let ?tweets = "map strip (filter (\<lambda>t. strip t \<noteq> []) (split_from THREAD_SEPARATOR [] txt))"
  show ?thesis
  proof (cases "length ?tweets < 2 \<or> validate_lengths 0 ?tweets \<noteq> None")
    case True
    then show ?thesis
      by (auto simp: x_post_thread_def thread_tweets_total issued_def)
  next
    case False
    then have run: "x_post_thread net txt s = post_loop net 0 ?tweets [] JNull s"
      by (auto simp: x_post_thread_def thread_tweets_total)
    from post_loop_only_posts [of net 0 ?tweets "[]" JNull s] obtain reqs where
      "sent (snd (post_loop net 0 ?tweets [] JNull s)) = sent s @ reqs"
      "\<forall>r\<in>set reqs. req_method r = POST"
      by blast
    then show ?thesis by (simp add: run issued_def)
  qed
qed




lemma globals_sent [simp]: "globals (s\<lparr>sent := xs\<rparr>) = globals s"
  by (simp add: globals_def)

lemma snd_get_tweet: "globals (snd (get_tweet net tid s)) = globals s"
  by (simp add: get_tweet_def send_def)

lemma snd_delete_tweet: "globals (snd (delete_tweet net tid s)) = globals s"
  by (simp add: delete_tweet_def send_def)

lemma snd_get_me: "globals (snd (get_me net s)) = globals s"
  by (simp add: get_me_def send_def)

lemma globals_post_loop:
  "globals (snd (post_loop net i tweets posted reply s)) = globals s"
proof (induction tweets arbitrary: i posted reply s)
  case Nil
  show ?case by simp
next
  case (Cons t ts)
  show ?case
  proof (cases "serialisable reply")
    case False
    then show ?thesis by (simp add: post_tweet_refused)
  next
    case True
    note eq = post_tweet_eq [OF True]
    let ?s' = "s\<lparr>sent := sent s @ [post_request (twitter_auth s) t reply]\<rparr>"
    show ?thesis
    proof (cases "json_of (net (length (sent s)))")
      case (Inl e)
      then show ?thesis by (simp add: eq)
    next
      case (Inr j)
      show ?thesis
      proof (cases "bind (subscript j ''data'') (\<lambda>d. subscript d ''id'')")
        case (Inl e)
        with Inr show ?thesis by (simp add: eq)
      next
        case (Inr x)
        with \<open>json_of (net (length (sent s))) = Inr j\<close>
          Cons.IH [of "i + 1" "posted @ [x]" x ?s']
        show ?thesis by (simp add: eq)
      qed
    qed
  qed
qed

lemma globals_x_get_me: "globals (snd (x_get_me net s)) = globals s"
  using snd_get_me [of net s]
  by (cases "get_me net s"; cases "fst (get_me net s)") (auto simp: x_get_me_def)

lemma globals_x_get_tweet: "globals (snd (x_get_tweet net tid s)) = globals s"
  using snd_get_tweet [of net tid s]
  by (cases "get_tweet net tid s"; cases "fst (get_tweet net tid s)") (auto simp: x_get_tweet_def)

lemma globals_x_delete_tweet: "globals (snd (x_delete_tweet net tid s)) = globals s"
  using snd_delete_tweet [of net tid s]
  by (cases "delete_tweet net tid s"; cases "fst (delete_tweet net tid s)")
    (auto simp: x_delete_tweet_def)

lemma globals_x_post_tweet: "globals (snd (x_post_tweet net txt s)) = globals s"
  by (cases "json_of (net (length (sent s)))") (simp_all add: x_post_tweet_def post_tweet_eq)

lemma globals_x_post_thread: "globals (snd (x_post_thread net txt s)) = globals s"
  by (simp add: x_post_thread_def thread_tweets_total globals_post_loop split: option.splits)









lemma get_dict: "get (JObject m) k d = Inr (case map_of m k of None \<Rightarrow> d | Some v \<Rightarrow> v)"
  by (simp split: option.splits)

lemma str_field: "str (case map_of m k of None \<Rightarrow> d | Some v \<Rightarrow> v) = field_or m k (str d)"
  by (simp add: field_or_def split: option.splits)

lemma x_get_me_format_ok:
  assumes "subscript body ''data'' = Inr (JObject d)"
    and "get (JObject d) ''public_metrics'' (JObject []) = Inr (JObject m)"
    and "map_of d ''username'' = Some u" "map_of d ''name'' = Some n" "map_of d ''id'' = Some i"
  shows "x_get_me_format body =
     Inr (''Authenticated as: @'' @ str u @ nl @
          ''Name: '' @ str n @ nl @
          ''ID: '' @ str i @ nl @
          ''Followers: '' @ field_or m ''followers_count'' ''N/A'' @ nl @
          ''Following: '' @ field_or m ''following_count'' ''N/A'' @ nl @
          ''Tweets: '' @ field_or m ''tweet_count'' ''N/A'')"
  unfolding x_get_me_format_def assms(1) assms(2) bind_Inr
  unfolding get_dict str_field bind_Inr
  by (simp add: assms(3-5))

lemma str_zero: "str (JInt 0) = ''0''"
  by (simp add: str_int_def str_nat.simps digit_char_def)

lemma x_get_tweet_format_ok:
  assumes "subscript body ''data'' = Inr (JObject d)"
    and "get (JObject d) ''public_metrics'' (JObject []) = Inr (JObject m)"
    and "map_of d ''id'' = Some i"
  shows "x_get_tweet_format body =
     Inr (''Tweet ID: '' @ str i @ nl @
          ''Text: '' @ field_or d ''text'' ''N/A'' @ nl @
          ''Created: '' @ field_or d ''created_at'' ''N/A'' @ nl @ nl @
          ''Metrics:'' @ nl @
          ''- Likes: '' @ field_or m ''like_count'' ''0'' @ nl @
          ''- Retweets: '' @ field_or m ''retweet_count'' ''0'' @ nl @
          ''- Replies: '' @ field_or m ''reply_count'' ''0'' @ nl @
          ''- Impressions: '' @ field_or m ''impression_count'' ''0'' @ nl @
          ''- Quotes: '' @ field_or m ''quote_count'' ''0'' @ nl @
          ''- Bookmarks: '' @ field_or m ''bookmark_count'' ''0'')"
  unfolding x_get_tweet_format_def assms(1) assms(2) bind_Inr
  unfolding get_dict str_field bind_Inr str_zero
  by (simp add: assms(3))

lemma x_get_me_ok:
  "status_code (net (length (sent s))) = 200 \<Longrightarrow> json_of (net (length (sent s))) = Inr body \<Longrightarrow>
   fst (x_get_me net s) = x_get_me_format body"
  by (simp add: x_get_me_def get_me_def send_def)

lemma x_get_tweet_ok:
  "status_code (net (length (sent s))) = 200 \<Longrightarrow> json_of (net (length (sent s))) = Inr body \<Longrightarrow>
   fst (x_get_tweet net tweet_id s) = x_get_tweet_format body"
  by (simp add: x_get_tweet_def get_tweet_def send_def)

lemma returns_string_Inr [simp]: "returns_string (Inr msg, s)"
  by (simp add: returns_string_def)

lemma returns_string_Inl [simp]: "\<not> returns_string (Inl e, s)"
  by (simp add: returns_string_def)










section \<open>Local validation\<close>

text \<open>
  Claim C4. For every text longer than 280 characters, \<open>x_post_tweet\<close> returns the error
  string reporting the actual length and the limit 280, and the state, hence the list of
  requests sent, is the one it was called in: no request is issued.
\<close>

theorem x_post_tweet_too_long:
  "280 < length txt \<Longrightarrow>
   x_post_tweet net txt s =
     (Inr (''Error: Tweet too long ('' @ str_nat (length txt) @ '' chars). Max 280.''), s)"
  by (simp add: x_post_tweet_def)

theorem x_post_tweet_too_long_witness:
  "280 < length (replicate 281 CHR ''a'') \<and>
   x_post_tweet (\<lambda>n. created ''1'') (replicate 281 CHR ''a'') start =
     (Inr ''Error: Tweet too long (281 chars). Max 280.'', start) \<and>
   sent start = []"
  using x_post_tweet_too_long [of "replicate 281 CHR ''a''" "\<lambda>n. created ''1''" start]
  by (simp add: str_nat.simps digit_char_def start_def module_init_def getenv_def)

text \<open>
  Claim C5. When the split on the separator leaves fewer than two non-empty trimmed
  tweets, \<open>x_post_thread\<close> returns an error string and the state is unchanged: no request
  is issued. (\<open>thread_tweets_total\<close> shows that the split always yields a list.)
\<close>

theorem x_post_thread_too_few:
  "thread_tweets txt = Inr tweets \<Longrightarrow> length tweets < 2 \<Longrightarrow>
   x_post_thread net txt s =
     (Inr (''Error: Thread must have at least 2 tweets. Use '' @ [sq] @
           [backslash, CHR ''n'', backslash, CHR ''n''] @ ''---'' @
           [backslash, CHR ''n'', backslash, CHR ''n''] @ [sq] @ '' as separator.''), s)"
  by (simp add: x_post_thread_def)

theorem x_post_thread_too_few_witness:
  "thread_tweets (''only one'' @ THREAD_SEPARATOR @ ''   '') = Inr [''only one''] \<and>
   length [''only one''] < 2 \<and>
   x_post_thread (\<lambda>n. created ''1'') (''only one'' @ THREAD_SEPARATOR @ ''   '') start =
     (Inr (''Error: Thread must have at least 2 tweets. Use '' @ [sq] @
           [backslash, CHR ''n'', backslash, CHR ''n''] @ ''---'' @
           [backslash, CHR ''n'', backslash, CHR ''n''] @ [sq] @ '' as separator.''), start)"
proof -
  have t: "thread_tweets (''only one'' @ THREAD_SEPARATOR @ ''   '') = Inr [''only one'']"
    by (simp add: thread_tweets_def split_def bind_def THREAD_SEPARATOR_def nl_def strip_def
        isspace_def)
  show ?thesis
    using t x_post_thread_too_few [OF t, of "\<lambda>n. created ''1''" start] by simp
qed

text \<open>
  Claim C3. When there are at least two tweets and the tweet at index \<open>i\<close> is the first
  one longer than 280 characters, \<open>x_post_thread\<close> returns the error string naming its
  position \<open>i + 1\<close> and its length, and the state is unchanged: every tweet is checked
  before any request is issued.
\<close>

theorem x_post_thread_segment_too_long:
  "thread_tweets txt = Inr tweets \<Longrightarrow> 2 \<le> length tweets \<Longrightarrow>
   i < length tweets \<Longrightarrow> 280 < length (tweets ! i) \<Longrightarrow>
   (\<forall>j<i. length (tweets ! j) \<le> 280) \<Longrightarrow>
   x_post_thread net txt s =
     (Inr (''Error: Tweet '' @ str_nat (i + 1) @ '' too long ('' @
           str_nat (length (tweets ! i)) @ '' chars). Max 280.''), s)"
  using validate_lengths_first [of i tweets 0]
  by (simp add: x_post_thread_def too_long_message_def)


theorem x_post_thread_segment_too_long_witness:
  "thread_tweets (''ok'' @ THREAD_SEPARATOR @ replicate 281 CHR ''a'') =
     Inr [''ok'', replicate 281 CHR ''a''] \<and>
   x_post_thread (\<lambda>n. created ''1'') (''ok'' @ THREAD_SEPARATOR @ replicate 281 CHR ''a'') start =
     (Inr ''Error: Tweet 2 too long (281 chars). Max 280.'', start)"
proof -
  let ?txt = "''ok'' @ THREAD_SEPARATOR @ replicate 281 CHR ''a''"
  let ?tweets = "[''ok'', replicate 281 CHR ''a'']"
  have t: "thread_tweets ?txt = Inr ?tweets"
    by code_simp
  have n: "2 \<le> length ?tweets" "1 < length ?tweets" "280 < length (?tweets ! 1)"
    "\<forall>j<1. length (?tweets ! j) \<le> 280"
    by simp_all
  show ?thesis
    using t x_post_thread_segment_too_long [OF t n, of "\<lambda>n. created ''1''" start]
    by (simp add: str_nat.simps digit_char_def)
qed

text \<open>
  Claim C10. The limit is inclusive. A text of exactly 280 characters passes the check
  of \<open>x_post_tweet\<close>: the request carrying it is sent. In a thread of at least two tweets
  none of which is longer than 280 characters (tweets of exactly 280 included), the
  length check reports nothing and the first tweet is posted.
\<close>

theorem limit_inclusive:
  assumes "length txt = 280"
    and "thread_tweets thread = Inr tweets"
    and "2 \<le> length tweets"
    and "\<forall>t\<in>set tweets. length t \<le> 280"
  shows "sent (snd (x_post_tweet net txt s)) = sent s @ [post_request (twitter_auth s) txt JNull] \<and>
     validate_lengths 0 tweets = None \<and>
     prefix (sent s @ [post_request (twitter_auth s) (tweets ! 0) JNull])
       (sent (snd (x_post_thread net thread s)))"
proof -
  have single: "sent (snd (x_post_tweet net txt s)) =
      sent s @ [post_request (twitter_auth s) txt JNull]"
    using assms(1)
    by (cases "json_of (net (length (sent s)))") (simp_all add: x_post_tweet_def post_tweet_eq)
  from assms(3) obtain t ts where tw: "tweets = t # ts" by (cases tweets) auto
  let ?s' = "s\<lparr>sent := sent s @ [post_request (twitter_auth s) t JNull]\<rparr>"
  have "prefix (sent ?s') (sent (snd (post_loop net 0 (t # ts) [] JNull s)))"
  proof (cases "json_of (net (length (sent s)))")
    case (Inl e)
    then show ?thesis by (simp add: post_tweet_eq)
  next
    case (Inr j)
    show ?thesis
    proof (cases "bind (subscript j ''data'') (\<lambda>d. subscript d ''id'')")
      case (Inl e)
      with Inr show ?thesis by (simp add: post_tweet_eq)
    next
      case (Inr x)
      with \<open>json_of (net (length (sent s))) = Inr j\<close>
        post_loop_sent_prefix [of ?s' net 1 ts "[x]" x]
      show ?thesis by (simp add: post_tweet_eq)
    qed
  qed
  then have "prefix (sent s @ [post_request (twitter_auth s) (tweets ! 0) JNull])
       (sent (snd (x_post_thread net thread s)))"
    by (simp add: x_post_thread_valid [OF assms(2-4)] tw)
  with single validate_lengths_pass [OF assms(4)] show ?thesis by simp
qed

theorem limit_inclusive_witness:
  "length (replicate 280 CHR ''a'') = 280 \<and>
   thread_tweets (''ok'' @ THREAD_SEPARATOR @ replicate 280 CHR ''a'') =
     Inr [''ok'', replicate 280 CHR ''a''] \<and>
   sent (snd (x_post_tweet (always (created ''101'')) (replicate 280 CHR ''a'') start)) =
     sent start @ [post_request (twitter_auth start) (replicate 280 CHR ''a'') JNull] \<and>
   validate_lengths 0 [''ok'', replicate 280 CHR ''a''] = None \<and>
   prefix (sent start @ [post_request (twitter_auth start) ([''ok'', replicate 280 CHR ''a''] ! 0) JNull])
     (sent (snd (x_post_thread (always (created ''101''))
        (''ok'' @ THREAD_SEPARATOR @ replicate 280 CHR ''a'') start)))"
proof -
  let ?tweets = "[''ok'', replicate 280 CHR ''a'']"
  have h1: "length (replicate 280 CHR ''a'') = 280" by simp
  have h2: "thread_tweets (''ok'' @ THREAD_SEPARATOR @ replicate 280 CHR ''a'') = Inr ?tweets"
    by code_simp
  have h3: "2 \<le> length ?tweets" and h4: "\<forall>t\<in>set ?tweets. length t \<le> 280"
    by simp_all
  show ?thesis
    by (rule conjI [OF h1 conjI [OF h2 limit_inclusive [OF h1 h2 h3 h4]]])
qed

section \<open>Posting a thread\<close>







section \<open>Credentials\<close>

text \<open>
  Claim C9. Module initialisation reads each of the four environment variables once, in
  the order of lines 22 to 25; a variable that is absent gives the empty string, and
  initialisation always yields a state. None of the five tools changes the four strings
  or the signer built from them.
\<close>

theorem credentials_read_once:
  "snd (module_init env) =
     [''TWITTER_API_KEY'', ''TWITTER_API_KEY_SECRET'', ''TWITTER_ACCESS_TOKEN'',
      ''TWITTER_ACCESS_TOKEN_SECRET''] \<and>
   globals (fst (module_init env)) =
     (let k = (case env ''TWITTER_API_KEY'' of None \<Rightarrow> [] | Some v \<Rightarrow> v);
          ks = (case env ''TWITTER_API_KEY_SECRET'' of None \<Rightarrow> [] | Some v \<Rightarrow> v);
          t = (case env ''TWITTER_ACCESS_TOKEN'' of None \<Rightarrow> [] | Some v \<Rightarrow> v);
          ts = (case env ''TWITTER_ACCESS_TOKEN_SECRET'' of None \<Rightarrow> [] | Some v \<Rightarrow> v)
      in (k, ks, t, ts, OAuth1 k ks t ts)) \<and>
   globals (snd (x_get_me net s)) = globals s \<and>
   globals (snd (x_post_tweet net txt s)) = globals s \<and>
   globals (snd (x_post_thread net txt s)) = globals s \<and>
   globals (snd (x_get_tweet net tweet_id s)) = globals s \<and>
   globals (snd (x_delete_tweet net tweet_id s)) = globals s"
proof -
  have reads: "snd (module_init env) =
     [''TWITTER_API_KEY'', ''TWITTER_API_KEY_SECRET'', ''TWITTER_ACCESS_TOKEN'',
      ''TWITTER_ACCESS_TOKEN_SECRET'']"
    by (simp add: module_init_def getenv_def)
  have vals: "globals (fst (module_init env)) =
     (let k = (case env ''TWITTER_API_KEY'' of None \<Rightarrow> [] | Some v \<Rightarrow> v);
          ks = (case env ''TWITTER_API_KEY_SECRET'' of None \<Rightarrow> [] | Some v \<Rightarrow> v);
          t = (case env ''TWITTER_ACCESS_TOKEN'' of None \<Rightarrow> [] | Some v \<Rightarrow> v);
          ts = (case env ''TWITTER_ACCESS_TOKEN_SECRET'' of None \<Rightarrow> [] | Some v \<Rightarrow> v)
      in (k, ks, t, ts, OAuth1 k ks t ts))"
    by (simp add: module_init_def getenv_def globals_def Let_def)
  show ?thesis
    using reads vals
    by (simp only: globals_x_get_me globals_x_post_tweet globals_x_post_thread
        globals_x_get_tweet globals_x_delete_tweet simp_thms)
qed

section \<open>Error strings\<close>




section \<open>Success strings and exceptions\<close>

text \<open>
  Claim C7, as amended. On a 200 response whose JSON body has a \<open>dict\<close> under \<open>data\<close> that
  holds \<open>username\<close>, \<open>name\<close> and \<open>id\<close> (for \<open>x_get_me\<close>) or \<open>id\<close> (for \<open>x_get_tweet\<close>), and
  whose \<open>public_metrics\<close>, when present, is a \<open>dict\<close>, the two operations return the
  documented text: \<open>x_get_me\<close> prints \<open>N/A\<close> for each metric that is missing, and
  \<open>x_get_tweet\<close> prints \<open>N/A\<close> for a missing \<open>text\<close> or \<open>created_at\<close> and \<open>0\<close> for each metric
  that is missing.
\<close>

theorem success_formats_fields:
  "(status_code (net (length (sent s))) = 200 \<and> json_of (net (length (sent s))) = Inr body \<and>
    subscript body ''data'' = Inr (JObject d) \<and>
    get (JObject d) ''public_metrics'' (JObject []) = Inr (JObject m) \<and>
    map_of d ''username'' = Some u \<and> map_of d ''name'' = Some n \<and> map_of d ''id'' = Some i \<longrightarrow>
    fst (x_get_me net s) =
      Inr (''Authenticated as: @'' @ str u @ nl @
           ''Name: '' @ str n @ nl @
           ''ID: '' @ str i @ nl @
           ''Followers: '' @ field_or m ''followers_count'' ''N/A'' @ nl @
           ''Following: '' @ field_or m ''following_count'' ''N/A'' @ nl @
           ''Tweets: '' @ field_or m ''tweet_count'' ''N/A'')) \<and>
   (status_code (tnet (length (sent s))) = 200 \<and> json_of (tnet (length (sent s))) = Inr tbody \<and>
    subscript tbody ''data'' = Inr (JObject td) \<and>
    get (JObject td) ''public_metrics'' (JObject []) = Inr (JObject tm) \<and>
    map_of td ''id'' = Some ti \<longrightarrow>
    fst (x_get_tweet tnet tweet_id s) =
      Inr (''Tweet ID: '' @ str ti @ nl @
           ''Text: '' @ field_or td ''text'' ''N/A'' @ nl @
           ''Created: '' @ field_or td ''created_at'' ''N/A'' @ nl @ nl @
           ''Metrics:'' @ nl @
           ''- Likes: '' @ field_or tm ''like_count'' ''0'' @ nl @
           ''- Retweets: '' @ field_or tm ''retweet_count'' ''0'' @ nl @
           ''- Replies: '' @ field_or tm ''reply_count'' ''0'' @ nl @
           ''- Impressions: '' @ field_or tm ''impression_count'' ''0'' @ nl @
           ''- Quotes: '' @ field_or tm ''quote_count'' ''0'' @ nl @
           ''- Bookmarks: '' @ field_or tm ''bookmark_count'' ''0''))"
proof (intro conjI impI; elim conjE)
  assume "status_code (net (length (sent s))) = 200" "json_of (net (length (sent s))) = Inr body"
    "subscript body ''data'' = Inr (JObject d)"
    "get (JObject d) ''public_metrics'' (JObject []) = Inr (JObject m)"
    "map_of d ''username'' = Some u" "map_of d ''name'' = Some n" "map_of d ''id'' = Some i"
  then show "fst (x_get_me net s) =
      Inr (''Authenticated as: @'' @ str u @ nl @
           ''Name: '' @ str n @ nl @
           ''ID: '' @ str i @ nl @
           ''Followers: '' @ field_or m ''followers_count'' ''N/A'' @ nl @
           ''Following: '' @ field_or m ''following_count'' ''N/A'' @ nl @
           ''Tweets: '' @ field_or m ''tweet_count'' ''N/A'')"
    by (simp only: x_get_me_ok x_get_me_format_ok)
next
  assume "status_code (tnet (length (sent s))) = 200"
    "json_of (tnet (length (sent s))) = Inr tbody"
    "subscript tbody ''data'' = Inr (JObject td)"
    "get (JObject td) ''public_metrics'' (JObject []) = Inr (JObject tm)"
    "map_of td ''id'' = Some ti"
  then show "fst (x_get_tweet tnet tweet_id s) =
      Inr (''Tweet ID: '' @ str ti @ nl @
           ''Text: '' @ field_or td ''text'' ''N/A'' @ nl @
           ''Created: '' @ field_or td ''created_at'' ''N/A'' @ nl @ nl @
           ''Metrics:'' @ nl @
           ''- Likes: '' @ field_or tm ''like_count'' ''0'' @ nl @
           ''- Retweets: '' @ field_or tm ''retweet_count'' ''0'' @ nl @
           ''- Replies: '' @ field_or tm ''reply_count'' ''0'' @ nl @
           ''- Impressions: '' @ field_or tm ''impression_count'' ''0'' @ nl @
           ''- Quotes: '' @ field_or tm ''quote_count'' ''0'' @ nl @
           ''- Bookmarks: '' @ field_or tm ''bookmark_count'' ''0'')"
    by (simp only: x_get_tweet_ok x_get_tweet_format_ok)
qed

theorem success_formats_fields_witness:
  "status_code me_minimal = 200 \<and> status_code tweet_minimal = 200 \<and>
   fst (x_get_me (always me_minimal) start) =
     Inr (''Authenticated as: @ada'' @ nl @ ''Name: Ada'' @ nl @ ''ID: 7'' @ nl @
          ''Followers: N/A'' @ nl @ ''Following: N/A'' @ nl @ ''Tweets: N/A'') \<and>
   fst (x_get_tweet (always tweet_minimal) ''20'' start) =
     Inr (''Tweet ID: 20'' @ nl @ ''Text: N/A'' @ nl @ ''Created: N/A'' @ nl @ nl @
          ''Metrics:'' @ nl @ ''- Likes: 0'' @ nl @ ''- Retweets: 0'' @ nl @
          ''- Replies: 0'' @ nl @ ''- Impressions: 0'' @ nl @ ''- Quotes: 0'' @ nl @
          ''- Bookmarks: 0'')"
proof -
  let ?d = "[(''id'', JString ''7''), (''name'', JString ''Ada''), (''username'', JString ''ada'')]"
  let ?td = "[(''id'', JString ''20'')]"
  have m1: "status_code (always me_minimal (length (sent start))) = 200"
    and m2: "json_of (always me_minimal (length (sent start))) = Inr (JObject [(''data'', JObject ?d)])"
    by (simp_all add: always_def me_minimal_def json_of_def)
  have m3: "subscript (JObject [(''data'', JObject ?d)]) ''data'' = Inr (JObject ?d)"
    and m4: "get (JObject ?d) ''public_metrics'' (JObject []) = Inr (JObject [])"
    and m5: "map_of ?d ''username'' = Some (JString ''ada'')"
    and m6: "map_of ?d ''name'' = Some (JString ''Ada'')"
    and m7: "map_of ?d ''id'' = Some (JString ''7'')"
    by simp_all
  have t1: "status_code (always tweet_minimal (length (sent start))) = 200"
    and t2: "json_of (always tweet_minimal (length (sent start))) =
      Inr (JObject [(''data'', JObject ?td)])"
    by (simp_all add: always_def tweet_minimal_def json_of_def)
  have t3: "subscript (JObject [(''data'', JObject ?td)]) ''data'' = Inr (JObject ?td)"
    and t4: "get (JObject ?td) ''public_metrics'' (JObject []) = Inr (JObject [])"
    and t5: "map_of ?td ''id'' = Some (JString ''20'')"
    by simp_all
  note main = success_formats_fields
    [of "always me_minimal" start "JObject [(''data'', JObject ?d)]" ?d "[]"
        "JString ''ada''" "JString ''Ada''" "JString ''7''"
        "always tweet_minimal" "JObject [(''data'', JObject ?td)]" ?td "[]" "JString ''20''" "''20''"]
  from main m1 m2 m3 m4 m5 m6 m7 have a: "fst (x_get_me (always me_minimal) start) =
      Inr (''Authenticated as: @'' @ str (JString ''ada'') @ nl @
           ''Name: '' @ str (JString ''Ada'') @ nl @
           ''ID: '' @ str (JString ''7'') @ nl @
           ''Followers: '' @ field_or [] ''followers_count'' ''N/A'' @ nl @
           ''Following: '' @ field_or [] ''following_count'' ''N/A'' @ nl @
           ''Tweets: '' @ field_or [] ''tweet_count'' ''N/A'')"
    by blast
  from main t1 t2 t3 t4 t5 have b: "fst (x_get_tweet (always tweet_minimal) ''20'' start) =
      Inr (''Tweet ID: '' @ str (JString ''20'') @ nl @
           ''Text: '' @ field_or ?td ''text'' ''N/A'' @ nl @
           ''Created: '' @ field_or ?td ''created_at'' ''N/A'' @ nl @ nl @
           ''Metrics:'' @ nl @
           ''- Likes: '' @ field_or [] ''like_count'' ''0'' @ nl @
           ''- Retweets: '' @ field_or [] ''retweet_count'' ''0'' @ nl @
           ''- Replies: '' @ field_or [] ''reply_count'' ''0'' @ nl @
           ''- Impressions: '' @ field_or [] ''impression_count'' ''0'' @ nl @
           ''- Quotes: '' @ field_or [] ''quote_count'' ''0'' @ nl @
           ''- Bookmarks: '' @ field_or [] ''bookmark_count'' ''0'')"
    by blast
  have s: "status_code me_minimal = 200" "status_code tweet_minimal = 200"
    by (simp_all add: me_minimal_def tweet_minimal_def)
  show ?thesis
    unfolding a b using s by (simp add: field_or_def)
qed

text \<open>
  Claim C7 as stated also promises a substitute for a missing \<open>username\<close>, \<open>name\<close> or
  \<open>id\<close>. These are read by subscript (lines 92 to 94 and 186): on a 200 response with
  body \<open>{"data":{}}\<close> both operations raise \<open>KeyError\<close>.
\<close>

theorem success_formats_fields_counterexample:
  "status_code data_empty = 200 \<and>
   fst (x_get_me (always data_empty) start) = Inl (KeyError ''username'') \<and>
   fst (x_get_tweet (always data_empty) ''20'' start) = Inl (KeyError ''id'')"
  by (simp add: x_get_me_def get_me_def x_get_tweet_def get_tweet_def send_def always_def
      data_empty_def json_of_def x_get_me_format_def x_get_tweet_format_def)




end
